theory Spec2Isabelle
  imports Complex_Main
begin

section \<open>Access Package Resource Finder: the three handlers of server.js\<close>

text \<open>
  The server has three POST handlers, \<^verbatim>\<open>/api/search\<close>, \<^verbatim>\<open>/api/resolveGroup\<close> and
  \<^verbatim>\<open>/api/resolveApplication\<close>. Each reads fields of the parsed JSON body, queries
  Microsoft Graph through a client, and sends one JSON response.

  The embedding makes the effects explicit:
  \<^item> the Graph tenant is a record \<open>directory\<close> of the four queries the handlers issue,
    each returning either the error the awaited \<^verbatim>\<open>.get()\<close> rejects with or the parsed
    response;
  \<^item> every handler returns the response it sends together with the list of Graph
    queries it issued, in order;
  \<^item> \<^verbatim>\<open>results.push\<close> is an append to a list passed through the loops, and a thrown
    exception is a value next to that list (a push before a throw is not undone);
  \<^item> what \<^verbatim>\<open>console.log\<close> and \<^verbatim>\<open>console.error\<close> print is not modelled, but the
    TypeError that the template literal of a log line throws on a request value with
    no string conversion is: it is thrown inside the handler's \<^verbatim>\<open>try\<close> and answered by
    its \<^verbatim>\<open>catch\<close>;
  \<^item> \<^verbatim>\<open>getGraphClient()\<close>, which only constructs the credential and client objects, is
    not a query.
\<close>

subsection \<open>JavaScript values of the request body\<close>

text \<open>
  \<^verbatim>\<open>express.json()\<close> leaves the parsed JSON body in \<^verbatim>\<open>req.body\<close>, taken here to
  be a JSON object: a list of key/value pairs, looked up by key. A field of the body
  can be any JSON value; a field that is not there reads as \<^verbatim>\<open>undefined\<close>. A JSON
  number is a finite double, read here as the real it denotes (both zeros are 0).
\<close>

datatype jsval =
    JUndefined
  | JNull
  | JBool bool
  | JNum real
  | JStr string
  | JArr "jsval list"
  | JObj "(string \<times> jsval) list"

type_synonym js_object = "(string \<times> jsval) list"

text \<open>\<^verbatim>\<open>!x\<close> is true exactly for the falsy values: undefined, null, false, 0 and ''.\<close>

fun truthy :: "jsval \<Rightarrow> bool" where
  "truthy JUndefined = False"
| "truthy JNull = False"
| "truthy (JBool b) = b"
| "truthy (JNum n) = (n \<noteq> 0)"
| "truthy (JStr s) = (s \<noteq> [])"
| "truthy (JArr xs) = True"
| "truthy (JObj kvs) = True"

text \<open>\<^verbatim>\<open>const { k } = req.body\<close>: the own property \<open>k\<close> of the body, or undefined.\<close>

definition getProp :: "js_object \<Rightarrow> string \<Rightarrow> jsval" where
  "getProp obj k = (case map_of obj k of None \<Rightarrow> JUndefined | Some v \<Rightarrow> v)"

subsection \<open>String conversion in a template literal\<close>

text \<open>
  Each handler logs its validated input with a template literal, and \<^verbatim>\<open>${v}\<close>
  converts \<^verbatim>\<open>v\<close> to a string. A primitive converts. An object is asked for its
  \<^verbatim>\<open>toString\<close>, then for its \<^verbatim>\<open>valueOf\<close>: an object parsed from JSON inherits
  both from \<^verbatim>\<open>Object.prototype\<close>, unless it has a key \<^verbatim>\<open>toString\<close> of its own. The
  value under such a key is never callable, the \<^verbatim>\<open>valueOf\<close> that is left returns no
  primitive, and the conversion throws a TypeError. An array is joined, which converts
  its elements in turn (null becomes the empty string).
\<close>

fun convertsToString :: "jsval \<Rightarrow> bool"
  and allConvertToString :: "jsval list \<Rightarrow> bool" where
  "convertsToString JUndefined = True"
| "convertsToString JNull = True"
| "convertsToString (JBool b) = True"
| "convertsToString (JNum n) = True"
| "convertsToString (JStr s) = True"
| "convertsToString (JArr xs) = allConvertToString xs"
| "convertsToString (JObj kvs) = (map_of kvs ''toString'' = None)"
| "allConvertToString [] = True"
| "allConvertToString (x # xs) = (convertsToString x \<and> allConvertToString xs)"

text \<open>
  \<^verbatim>\<open>console.log\<close> of a template literal over the given values, left to right: None
  when it returns, or the message of the TypeError it throws.
\<close>

definition logTemplate :: "jsval list \<Rightarrow> string option" where
  "logTemplate vs =
     (if allConvertToString vs then None
      else Some ''Cannot convert object to primitive value'')"

subsection \<open>Graph data\<close>

text \<open>
  The responses of Graph are typed as the code reads them. What the code dereferences
  without a guard is there: the \<^verbatim>\<open>value\<close> array of a collection response, its
  elements, the fetched package and the elements of its \<^verbatim>\<open>resourceRoleScopes\<close>, and
  the \<^verbatim>\<open>id\<close> of an object. A property that the code guards (\<^verbatim>\<open>scope &&\<close>,
  \<^verbatim>\<open>role?.\<close>, \<^verbatim>\<open>|| 'N/A'\<close>, \<^verbatim>\<open>!packageDetails.resourceRoleScopes\<close>) or passes
  through can be absent (it reads as undefined), null, or present.
\<close>

datatype 'a nullable = Absent | Null | Present 'a

text \<open>The catalog entries: \<^verbatim>\<open>.select('id,displayName')\<close>.\<close>

record access_package =
  pkg_id :: string
  pkg_displayName :: "string nullable"

record resource_scope =
  originId :: "string nullable"
  originSystem :: "string nullable"
  scope_displayName :: "string nullable"

record resource_role =
  role_displayName :: "string nullable"

record role_scope =
  scope :: "resource_scope nullable"
  role :: "resource_role nullable"

text \<open>One access package with \<^verbatim>\<open>resourceRoleScopes($expand=role,scope)\<close>.\<close>

record package_details =
  details_id :: string
  details_displayName :: "string nullable"
  resourceRoleScopes :: "role_scope list nullable"

text \<open>\<^verbatim>\<open>/groups\<close> with \<^verbatim>\<open>.select('id,displayName')\<close>.\<close>

record directory_group =
  group_id :: string
  group_displayName :: "string nullable"

text \<open>\<^verbatim>\<open>/servicePrincipals\<close> with \<^verbatim>\<open>.select('id,displayName,appId')\<close>.\<close>

record service_principal =
  sp_id :: string
  sp_displayName :: "string nullable"
  sp_appId :: "string nullable"

text \<open>The error an awaited \<^verbatim>\<open>.get()\<close> rejects with; the handlers read its message.\<close>

datatype graph_error = GraphError (message: string)

text \<open>
  What can be thrown inside the per-package \<^verbatim>\<open>try\<close> block: the error of the fetch, or
  the TypeError of reading a property of null or undefined.
\<close>

datatype thrown = Rejected graph_error | TypeError

text \<open>
  The four queries. The group and service-principal filters are built from the
  request's \<^verbatim>\<open>groupName\<close> and \<^verbatim>\<open>applicationName\<close> by a template string, so the
  answer is a function of that value.
\<close>

record directory =
  listAccessPackages :: "graph_error + access_package list"
  getAccessPackage :: "string \<Rightarrow> graph_error + package_details"
  listGroups :: "jsval \<Rightarrow> graph_error + directory_group list"
  listServicePrincipals :: "jsval \<Rightarrow> graph_error + service_principal list"

datatype graph_call =
    ListAccessPackages
  | GetAccessPackage string
  | ListGroups jsval
  | ListServicePrincipals jsval

subsection \<open>Responses\<close>

record match_record =
  accessPackageName :: "string nullable"
  accessPackageId :: string
  resourceName :: string
  resourceType :: "string nullable"
  resourceId :: "string nullable"
  roleName :: string

record application_ref =
  objectId :: string
  displayName :: "string nullable"
  appId :: "string nullable"

text \<open>The shapes of the JSON bodies the handlers send.\<close>

datatype response_body =
    ErrorBody string
      \<comment> \<open>\<^verbatim>\<open>{ error }\<close>\<close>
  | ErrorDetailsBody string string
      \<comment> \<open>\<^verbatim>\<open>{ error, details }\<close>\<close>
  | SearchBody "match_record list" jsval jsval
      \<comment> \<open>\<^verbatim>\<open>{ results, searchType, searchValue }\<close>\<close>
  | GroupBody string "string nullable"
      \<comment> \<open>\<^verbatim>\<open>{ groupId, displayName }\<close>\<close>
  | ApplicationBody application_ref
      \<comment> \<open>\<^verbatim>\<open>{ objectId, displayName, appId }\<close>\<close>
  | MultipleBody "application_ref list"
      \<comment> \<open>\<^verbatim>\<open>{ multiple: true, applications }\<close>\<close>

text \<open>\<^verbatim>\<open>res.json(b)\<close> sends status 200; \<^verbatim>\<open>res.status(c).json(b)\<close> sends status \<open>c\<close>.\<close>

record response =
  status :: nat
  json :: response_body

subsection \<open>The match predicate of /api/search\<close>

text \<open>\<^verbatim>\<open>scope.originId === searchValue\<close>: strict equality of a Graph string property
  with a value of the request body.\<close>

fun strictEq :: "string nullable \<Rightarrow> jsval \<Rightarrow> bool" where
  "strictEq Absent v = (v = JUndefined)"
| "strictEq Null v = (v = JNull)"
| "strictEq (Present s) v = (v = JStr s)"

text \<open>
  The \<^verbatim>\<open>switch (searchType)\<close> that sets \<^verbatim>\<open>isMatch\<close>: each \<^verbatim>\<open>case\<close> compares with
  \<^verbatim>\<open>===\<close>, and the guard \<^verbatim>\<open>scope &&\<close> stops at a null or undefined scope.
\<close>

definition isMatch :: "jsval \<Rightarrow> jsval \<Rightarrow> resource_scope nullable \<Rightarrow> bool" where
  "isMatch searchType searchValue sc =
     (if searchType = JStr ''application'' then
        (case sc of
           Present s \<Rightarrow> strictEq (originId s) searchValue \<and> originSystem s = Present ''AadApplication''
         | _ \<Rightarrow> False)
      else if searchType = JStr ''group'' then
        (case sc of
           Present s \<Rightarrow> strictEq (originId s) searchValue \<and> originSystem s = Present ''AadGroup''
         | _ \<Rightarrow> False)
      else if searchType = JStr ''sharepoint'' then
        (case sc of
           Present s \<Rightarrow> strictEq (originId s) searchValue \<and> originSystem s = Present ''SharePointOnline''
         | _ \<Rightarrow> False)
      else False)"

text \<open>\<^verbatim>\<open>x || 'N/A'\<close> on a string property: the empty string is falsy too.\<close>

fun orNA :: "string nullable \<Rightarrow> string" where
  "orNA (Present s) = (if s = [] then ''N/A'' else s)"
| "orNA Absent = ''N/A''"
| "orNA Null = ''N/A''"

text \<open>\<^verbatim>\<open>role?.displayName || 'N/A'\<close>.\<close>

fun roleNameOf :: "resource_role nullable \<Rightarrow> string" where
  "roleNameOf (Present r) = orNA (role_displayName r)"
| "roleNameOf Absent = ''N/A''"
| "roleNameOf Null = ''N/A''"

text \<open>The object literal pushed on a match; it reads properties of \<^verbatim>\<open>scope\<close>.\<close>

definition matchRecord :: "package_details \<Rightarrow> resource_scope \<Rightarrow> resource_role nullable \<Rightarrow> match_record" where
  "matchRecord packageDetails s r =
     \<lparr>accessPackageName = details_displayName packageDetails,
      accessPackageId = details_id packageDetails,
      resourceName = orNA (scope_displayName s),
      resourceType = originSystem s,
      resourceId = originId s,
      roleName = roleNameOf r\<rparr>"

text \<open>
  The body of the loop over \<^verbatim>\<open>packageDetails.resourceRoleScopes\<close>. Building the record
  reads \<^verbatim>\<open>scope.displayName\<close>, which throws a TypeError when \<^verbatim>\<open>scope\<close> is null or
  undefined.
\<close>

definition roleScopeStep ::
  "jsval \<Rightarrow> jsval \<Rightarrow> package_details \<Rightarrow> role_scope \<Rightarrow> match_record list
     \<Rightarrow> match_record list \<times> thrown option" where
  "roleScopeStep searchType searchValue packageDetails roleScope results =
     (if isMatch searchType searchValue (scope roleScope) then
        (case scope roleScope of
           Present s \<Rightarrow> (results @ [matchRecord packageDetails s (role roleScope)], None)
         | _ \<Rightarrow> (results, Some TypeError))
      else (results, None))"

fun forRoleScopes ::
  "jsval \<Rightarrow> jsval \<Rightarrow> package_details \<Rightarrow> role_scope list \<Rightarrow> match_record list
     \<Rightarrow> match_record list \<times> thrown option" where
  "forRoleScopes searchType searchValue packageDetails [] results = (results, None)"
| "forRoleScopes searchType searchValue packageDetails (roleScope # rest) results =
     (case roleScopeStep searchType searchValue packageDetails roleScope results of
        (results', Some e) \<Rightarrow> (results', Some e)
      | (results', None) \<Rightarrow> forRoleScopes searchType searchValue packageDetails rest results')"

subsection \<open>POST /api/search\<close>

text \<open>
  What follows the fetch inside the \<^verbatim>\<open>try\<close> block: the skip of a package whose
  \<^verbatim>\<open>resourceRoleScopes\<close> is falsy or of length 0 (\<^verbatim>\<open>continue\<close>), then the inner loop.
\<close>

definition scanPackage ::
  "jsval \<Rightarrow> jsval \<Rightarrow> package_details \<Rightarrow> match_record list \<Rightarrow> match_record list \<times> thrown option" where
  "scanPackage searchType searchValue packageDetails results =
     (case resourceRoleScopes packageDetails of
        Present rss \<Rightarrow>
          (if rss = [] then (results, None)
           else forRoleScopes searchType searchValue packageDetails rss results)
      | _ \<Rightarrow> (results, None))"

text \<open>The \<^verbatim>\<open>try\<close> block for one catalog entry: the fetch by \<^verbatim>\<open>pkg.id\<close>, then the scan.\<close>

definition tryPackage ::
  "directory \<Rightarrow> jsval \<Rightarrow> jsval \<Rightarrow> access_package \<Rightarrow> match_record list
     \<Rightarrow> match_record list \<times> thrown option" where
  "tryPackage dir searchType searchValue pkg results =
     (case getAccessPackage dir (pkg_id pkg) of
        Inl err \<Rightarrow> (results, Some (Rejected err))
      | Inr packageDetails \<Rightarrow> scanPackage searchType searchValue packageDetails results)"

text \<open>
  One iteration of the loop over the catalog, on the state (results, queries issued).
  The \<^verbatim>\<open>catch\<close> logs the error and goes on to the next package.
\<close>

definition packageStep ::
  "directory \<Rightarrow> jsval \<Rightarrow> jsval \<Rightarrow> access_package \<Rightarrow> match_record list \<times> graph_call list
     \<Rightarrow> match_record list \<times> graph_call list" where
  "packageStep dir searchType searchValue pkg st =
     (case st of (results, calls) \<Rightarrow>
        (fst (tryPackage dir searchType searchValue pkg results),
         calls @ [GetAccessPackage (pkg_id pkg)]))"

fun forPackages ::
  "directory \<Rightarrow> jsval \<Rightarrow> jsval \<Rightarrow> access_package list \<Rightarrow> match_record list \<times> graph_call list
     \<Rightarrow> match_record list \<times> graph_call list" where
  "forPackages dir searchType searchValue [] st = st"
| "forPackages dir searchType searchValue (pkg # rest) st =
     forPackages dir searchType searchValue rest (packageStep dir searchType searchValue pkg st)"

definition search :: "directory \<Rightarrow> js_object \<Rightarrow> response \<times> graph_call list" where
  "search dir body =
     (let searchType = getProp body ''searchType'';
          searchValue = getProp body ''searchValue''
      in if \<not> truthy searchType \<or> \<not> truthy searchValue then
           (\<lparr>status = 400, json = ErrorBody ''Missing searchType or searchValue''\<rparr>, [])
         else
           (case logTemplate [searchType, searchValue] of
              Some msg \<Rightarrow>
                (\<lparr>status = 500, json = ErrorDetailsBody ''Failed to search access packages'' msg\<rparr>,
                 [])
            | None \<Rightarrow>
                (case listAccessPackages dir of
                   Inl err \<Rightarrow>
                     (\<lparr>status = 500,
                       json = ErrorDetailsBody ''Failed to search access packages'' (message err)\<rparr>,
                      [ListAccessPackages])
                 | Inr pkgs \<Rightarrow>
                     (case forPackages dir searchType searchValue pkgs ([], [ListAccessPackages]) of
                        (results, calls) \<Rightarrow>
                          (\<lparr>status = 200, json = SearchBody results searchType searchValue\<rparr>,
                           calls)))))"

subsection \<open>POST /api/resolveGroup\<close>

definition resolveGroup :: "directory \<Rightarrow> js_object \<Rightarrow> response \<times> graph_call list" where
  "resolveGroup dir body =
     (let groupName = getProp body ''groupName''
      in if \<not> truthy groupName then
           (\<lparr>status = 400, json = ErrorBody ''Missing groupName''\<rparr>, [])
         else
           (case logTemplate [groupName] of
              Some msg \<Rightarrow>
                (\<lparr>status = 500, json = ErrorDetailsBody ''Failed to resolve group'' msg\<rparr>, [])
            | None \<Rightarrow>
                (case listGroups dir groupName of
                   Inl err \<Rightarrow>
                     (\<lparr>status = 500,
                       json = ErrorDetailsBody ''Failed to resolve group'' (message err)\<rparr>,
                      [ListGroups groupName])
                 | Inr groups \<Rightarrow>
                     (if length groups = 0 then
                        (\<lparr>status = 404, json = ErrorBody ''Group not found''\<rparr>,
                         [ListGroups groupName])
                      else
                        (\<lparr>status = 200,
                          json = GroupBody (group_id (groups ! 0)) (group_displayName (groups ! 0))\<rparr>,
                         [ListGroups groupName])))))"

subsection \<open>POST /api/resolveApplication\<close>

text \<open>The \<^verbatim>\<open>map\<close> callback of the handler.\<close>

definition toApplication :: "service_principal \<Rightarrow> application_ref" where
  "toApplication sp = \<lparr>objectId = sp_id sp, displayName = sp_displayName sp, appId = sp_appId sp\<rparr>"

definition resolveApplication :: "directory \<Rightarrow> js_object \<Rightarrow> response \<times> graph_call list" where
  "resolveApplication dir body =
     (let applicationName = getProp body ''applicationName''
      in if \<not> truthy applicationName then
           (\<lparr>status = 400, json = ErrorBody ''Missing applicationName''\<rparr>, [])
         else
           (case logTemplate [applicationName] of
              Some msg \<Rightarrow>
                (\<lparr>status = 500, json = ErrorDetailsBody ''Failed to resolve application'' msg\<rparr>,
                 [])
            | None \<Rightarrow>
                (case listServicePrincipals dir applicationName of
                   Inl err \<Rightarrow>
                     (\<lparr>status = 500,
                       json = ErrorDetailsBody ''Failed to resolve application'' (message err)\<rparr>,
                      [ListServicePrincipals applicationName])
                 | Inr sps \<Rightarrow>
                     (if length sps = 0 then
                        (\<lparr>status = 404, json = ErrorBody ''Application not found''\<rparr>,
                         [ListServicePrincipals applicationName])
                      else
                        (let applications = map toApplication sps
                         in if length applications = 1 then
                              (\<lparr>status = 200, json = ApplicationBody (applications ! 0)\<rparr>,
                               [ListServicePrincipals applicationName])
                            else
                              (\<lparr>status = 200, json = MultipleBody applications\<rparr>,
                               [ListServicePrincipals applicationName]))))))"

subsection \<open>Reference notions for the properties\<close>

text \<open>
  The mapping of the specification (section 4.1, step 4) from a search type to the
  origin-system tag it selects. The source has no such table: it is spread over the
  three \<^verbatim>\<open>case\<close> labels of the switch in \<open>isMatch\<close>.
\<close>

definition mappedOriginSystem :: "jsval \<Rightarrow> string option" where
  "mappedOriginSystem searchType =
     (if searchType = JStr ''application'' then Some ''AadApplication''
      else if searchType = JStr ''group'' then Some ''AadGroup''
      else if searchType = JStr ''sharepoint'' then Some ''SharePointOnline''
      else None)"

text \<open>
  The records one fetched package contributes: what the scan pushes when it starts
  from an empty list. \<open>fetchedRecords\<close> is the same for a catalog entry, through its
  fetch.
\<close>

definition packageRecords :: "jsval \<Rightarrow> jsval \<Rightarrow> package_details \<Rightarrow> match_record list" where
  "packageRecords searchType searchValue packageDetails =
     fst (scanPackage searchType searchValue packageDetails [])"

definition fetchedRecords :: "directory \<Rightarrow> jsval \<Rightarrow> jsval \<Rightarrow> access_package \<Rightarrow> match_record list" where
  "fetchedRecords dir searchType searchValue pkg =
     fst (tryPackage dir searchType searchValue pkg [])"

subsection \<open>A sample tenant\<close>

text \<open>
  Package A holds the group g1 (``Sales Group'', role ``Member''), package B has no
  scopes, the fetch of package C is refused. One group is named ``Team Alpha''; two
  service principals start with ``Contoso'' and one with ``Fabrikam''.
\<close>

definition salesGroupScope :: role_scope where
  "salesGroupScope =
     \<lparr>scope = Present \<lparr>originId = Present ''g1'', originSystem = Present ''AadGroup'',
                        scope_displayName = Present ''Sales Group''\<rparr>,
      role = Present \<lparr>role_displayName = Present ''Member''\<rparr>\<rparr>"

definition packageA :: package_details where
  "packageA = \<lparr>details_id = ''A'', details_displayName = Present ''Sales onboarding'',
                resourceRoleScopes = Present [salesGroupScope]\<rparr>"

definition packageB :: package_details where
  "packageB = \<lparr>details_id = ''B'', details_displayName = Present ''Empty package'',
                resourceRoleScopes = Present []\<rparr>"

definition sampleCatalog :: "access_package list" where
  "sampleCatalog =
     [\<lparr>pkg_id = ''C'', pkg_displayName = Present ''Restricted package''\<rparr>,
      \<lparr>pkg_id = ''A'', pkg_displayName = Present ''Sales onboarding''\<rparr>,
      \<lparr>pkg_id = ''B'', pkg_displayName = Present ''Empty package''\<rparr>]"

definition contosoApp :: service_principal where
  "contosoApp = \<lparr>sp_id = ''sp1'', sp_displayName = Present ''Contoso App'', sp_appId = Present ''app1''\<rparr>"

definition contosoPortal :: service_principal where
  "contosoPortal = \<lparr>sp_id = ''sp2'', sp_displayName = Present ''Contoso Portal'', sp_appId = Present ''app2''\<rparr>"

definition fabrikamApp :: service_principal where
  "fabrikamApp = \<lparr>sp_id = ''sp3'', sp_displayName = Present ''Fabrikam'', sp_appId = Present ''app3''\<rparr>"

definition sampleTenant :: directory where
  "sampleTenant =
     \<lparr>listAccessPackages = Inr sampleCatalog,
      getAccessPackage = (\<lambda>i. if i = ''A'' then Inr packageA
                              else if i = ''B'' then Inr packageB
                              else Inl (GraphError ''Forbidden'')),
      listGroups = (\<lambda>n. if n = JStr ''Team Alpha''
                         then Inr [\<lparr>group_id = ''g1'', group_displayName = Present ''Team Alpha''\<rparr>,
                                   \<lparr>group_id = ''g2'', group_displayName = Present ''Team Alpha''\<rparr>]
                         else Inr []),
      listServicePrincipals = (\<lambda>n. if n = JStr ''Contoso'' then Inr [contosoApp, contosoPortal]
                                    else if n = JStr ''Fabrikam'' then Inr [fabrikamApp]
                                    else Inr [])\<rparr>"

text \<open>A scope of an origin system the switch does not know.\<close>

definition crmScope :: role_scope where
  "crmScope =
     \<lparr>scope = Present \<lparr>originId = Present ''g1'', originSystem = Present ''DynamicsCrm'',
                        scope_displayName = Null\<rparr>,
      role = Null\<rparr>"

text \<open>A tenant whose every query is rejected.\<close>

definition unreachableTenant :: directory where
  "unreachableTenant =
     \<lparr>listAccessPackages = Inl (GraphError ''ECONNREFUSED''),
      getAccessPackage = (\<lambda>i. Inl (GraphError ''ECONNREFUSED'')),
      listGroups = (\<lambda>n. Inl (GraphError ''ECONNREFUSED'')),
      listServicePrincipals = (\<lambda>n. Inl (GraphError ''ECONNREFUSED''))\<rparr>"

text \<open>A package whose \<^verbatim>\<open>resourceRoleScopes\<close> is null, and a tenant that serves it.\<close>

definition packageNull :: package_details where
  "packageNull = \<lparr>details_id = ''N'', details_displayName = Present ''No scopes'',
                   resourceRoleScopes = Null\<rparr>"

definition nullScopesTenant :: directory where
  "nullScopesTenant = sampleTenant\<lparr>getAccessPackage := (\<lambda>i. Inr packageNull)\<rparr>"

text \<open>A role scope whose \<^verbatim>\<open>scope\<close> is null.\<close>

definition nullScope :: role_scope where
  "nullScope = \<lparr>scope = Null, role = Present \<lparr>role_displayName = Present ''Owner''\<rparr>\<rparr>"

text \<open>The record the search for group g1 finds in package A.\<close>

definition salesRecord :: match_record where
  "salesRecord =
     \<lparr>accessPackageName = Present ''Sales onboarding'', accessPackageId = ''A'',
      resourceName = ''Sales Group'', resourceType = Present ''AadGroup'',
      resourceId = Present ''g1'', roleName = ''Member''\<rparr>"

text \<open>Request bodies.\<close>

definition groupSearch :: js_object where
  "groupSearch = [(''searchType'', JStr ''group''), (''searchValue'', JStr ''g1'')]"

definition deviceSearch :: js_object where
  "deviceSearch = [(''searchType'', JStr ''device''), (''searchValue'', JStr ''g1'')]"

definition deviceSearchNoValue :: js_object where
  "deviceSearchNoValue = [(''searchType'', JStr ''device''), (''searchValue'', JStr '''')]"

text \<open>A search type that is truthy and has no string conversion.\<close>

definition objectTypeSearch :: js_object where
  "objectTypeSearch =
     [(''searchType'', JObj [(''toString'', JStr ''x'')]), (''searchValue'', JStr ''g1'')]"

definition emptyTypeSearch :: js_object where
  "emptyTypeSearch = [(''searchType'', JStr ''''), (''searchValue'', JStr ''g1'')]"

section \<open>Verification\<close>

subsection \<open>The scan of one package\<close>

lemma isMatch_scope: "isMatch st sv sc \<Longrightarrow> \<exists>s. sc = Present s"
  by (cases sc) (auto simp: isMatch_def split: if_splits)

lemma isMatch_iff:
  "isMatch st sv sc \<longleftrightarrow>
     (\<exists>s tag. sc = Present s \<and> mappedOriginSystem st = Some tag
        \<and> strictEq (originId s) sv \<and> originSystem s = Present tag)"
  by (cases sc) (auto simp: isMatch_def mappedOriginSystem_def)

lemma strictEq_truthy: "truthy sv \<Longrightarrow> strictEq x sv \<longleftrightarrow> (\<exists>v. sv = JStr v \<and> x = Present v)"
  by (cases x) auto

lemma mappedOriginSystem_closed:
  "mappedOriginSystem st = Some tag \<Longrightarrow> tag \<in> {''AadApplication'', ''AadGroup'', ''SharePointOnline''}"
  by (auto simp: mappedOriginSystem_def split: if_splits)

lemma roleScopeStep_eq:
  "roleScopeStep st sv d rs results = (results @ fst (roleScopeStep st sv d rs []), None)"
  by (auto simp: roleScopeStep_def split: nullable.splits dest: isMatch_scope)

lemma forRoleScopes_eq:
  "forRoleScopes st sv d rss results =
     (results @ concat (map (\<lambda>rs. fst (roleScopeStep st sv d rs [])) rss), None)"
proof (induction rss arbitrary: results)
  case Nil
  then show ?case by simp
next
  case (Cons rs rss)
  show ?case
    by (subst roleScopeStep_eq) (simp add: Cons.IH roleScopeStep_eq[of st sv d rs results])
qed

lemma scanPackage_eq:
  "scanPackage st sv d results = (results @ packageRecords st sv d, None)"
  by (simp add: scanPackage_def packageRecords_def forRoleScopes_eq[of st sv d _ results]
      forRoleScopes_eq[of st sv d _ "[]"] split: nullable.splits)

lemma fetchedRecords_cases:
  "fetchedRecords dir st sv pkg =
     (case getAccessPackage dir (pkg_id pkg) of Inl err \<Rightarrow> [] | Inr d \<Rightarrow> packageRecords st sv d)"
  by (simp add: fetchedRecords_def tryPackage_def packageRecords_def split: sum.splits)

lemma tryPackage_fst:
  "fst (tryPackage dir st sv pkg results) = results @ fetchedRecords dir st sv pkg"
  by (simp add: fetchedRecords_cases tryPackage_def scanPackage_eq split: sum.splits)

lemma forPackages_eq:
  "forPackages dir st sv pkgs (results, calls) =
     (results @ concat (map (fetchedRecords dir st sv) pkgs),
      calls @ map (\<lambda>pkg. GetAccessPackage (pkg_id pkg)) pkgs)"
  by (induction pkgs arbitrary: results calls) (simp_all add: packageStep_def tryPackage_fst)

lemma search_scanned:
  assumes "truthy (getProp body ''searchType'')" and "truthy (getProp body ''searchValue'')"
    and "convertsToString (getProp body ''searchType'')"
    and "convertsToString (getProp body ''searchValue'')"
    and "listAccessPackages dir = Inr pkgs"
  shows "search dir body =
     (\<lparr>status = 200,
       json = SearchBody
         (concat (map (fetchedRecords dir (getProp body ''searchType'') (getProp body ''searchValue'')) pkgs))
         (getProp body ''searchType'') (getProp body ''searchValue'')\<rparr>,
      ListAccessPackages # map (\<lambda>pkg. GetAccessPackage (pkg_id pkg)) pkgs)"
  using assms by (simp add: search_def Let_def logTemplate_def forPackages_eq)

lemma packageRecords_mem:
  assumes "r \<in> set (packageRecords st sv d)"
  shows "\<exists>rss rs s. resourceRoleScopes d = Present rss \<and> rs \<in> set rss \<and> scope rs = Present s
           \<and> isMatch st sv (Present s) \<and> r = matchRecord d s (role rs)"
proof -
  from assms obtain rss where rss: "resourceRoleScopes d = Present rss"
    and "r \<in> set (fst (forRoleScopes st sv d rss []))"
    by (auto simp: packageRecords_def scanPackage_def split: nullable.splits if_splits)
  then obtain rs where rs: "rs \<in> set rss" and r: "r \<in> set (fst (roleScopeStep st sv d rs []))"
    by (auto simp: forRoleScopes_eq[of st sv d rss "[]"])
  from r have m: "isMatch st sv (scope rs)"
    by (auto simp: roleScopeStep_def split: if_splits)
  then obtain s where s: "scope rs = Present s" by (auto dest: isMatch_scope)
  with r m have "r = matchRecord d s (role rs)"
    by (simp add: roleScopeStep_def)
  with rss rs s m show ?thesis by auto
qed


lemma unmapped_no_records:
  assumes "mappedOriginSystem st = None"
  shows "packageRecords st sv d = []"
proof (rule ccontr)
  assume "packageRecords st sv d \<noteq> []"
  then obtain r where "r \<in> set (packageRecords st sv d)"
    by (cases "packageRecords st sv d") auto
  then obtain s where "isMatch st sv (Present s)"
    by (auto dest: packageRecords_mem)
  with assms show False by (simp add: isMatch_iff)
qed

lemma mappedOriginSystem_None:
  "st \<notin> {JStr ''application'', JStr ''group'', JStr ''sharepoint''} \<Longrightarrow> mappedOriginSystem st = None"
  by (simp add: mappedOriginSystem_def)

lemma getProp_absent: "map_of body k = None \<Longrightarrow> getProp body k = JUndefined"
  by (simp add: getProp_def)

subsection \<open>Properties\<close>

text \<open>
  Claim C1. For a scope that \<^verbatim>\<open>/api/search\<close> examines (the search value has passed
  the validation, so it is truthy), the scope matches if and only if it is present, the
  search value is a string equal to its \<open>originId\<close>, character for character, and its
  \<open>originSystem\<close> is the tag mapped from the search type. A scope whose origin system
  is none of the three tags does not match. The loop step pushes one record when the
  scope matches, nothing otherwise, and throws nothing.
\<close>

theorem scope_match_exact:
  assumes "truthy searchValue"
  shows "(isMatch searchType searchValue (scope roleScope) \<longleftrightarrow>
            (\<exists>s tag v. scope roleScope = Present s \<and> mappedOriginSystem searchType = Some tag
               \<and> searchValue = JStr v \<and> originId s = Present v \<and> originSystem s = Present tag))
       \<and> (\<forall>s. scope roleScope = Present s
               \<and> originSystem s \<notin> {Present ''AadApplication'', Present ''AadGroup'', Present ''SharePointOnline''}
             \<longrightarrow> \<not> isMatch searchType searchValue (scope roleScope))
       \<and> roleScopeStep searchType searchValue packageDetails roleScope results =
           ((case scope roleScope of
               Present s \<Rightarrow>
                 if isMatch searchType searchValue (scope roleScope)
                 then results @ [matchRecord packageDetails s (role roleScope)]
                 else results
             | _ \<Rightarrow> results),
            None)"
proof (intro conjI allI impI)
  show "isMatch searchType searchValue (scope roleScope) \<longleftrightarrow>
          (\<exists>s tag v. scope roleScope = Present s \<and> mappedOriginSystem searchType = Some tag
             \<and> searchValue = JStr v \<and> originId s = Present v \<and> originSystem s = Present tag)"
    using assms by (auto simp: isMatch_iff strictEq_truthy)
next
  fix s
  assume "scope roleScope = Present s
    \<and> originSystem s \<notin> {Present ''AadApplication'', Present ''AadGroup'', Present ''SharePointOnline''}"
  then show "\<not> isMatch searchType searchValue (scope roleScope)"
    by (auto simp: isMatch_iff dest: mappedOriginSystem_closed)
next
  show "roleScopeStep searchType searchValue packageDetails roleScope results =
           ((case scope roleScope of
               Present s \<Rightarrow>
                 if isMatch searchType searchValue (scope roleScope)
                 then results @ [matchRecord packageDetails s (role roleScope)]
                 else results
             | _ \<Rightarrow> results),
            None)"
    by (auto simp: roleScopeStep_def split: nullable.splits dest: isMatch_scope)
qed

theorem scope_match_exact_witness:
  "truthy (JStr ''g1'')
   \<and> isMatch (JStr ''group'') (JStr ''g1'') (scope salesGroupScope)
   \<and> \<not> isMatch (JStr ''group'') (JStr ''g'') (scope salesGroupScope)
   \<and> \<not> isMatch (JStr ''group'') (JStr ''G1'') (scope salesGroupScope)
   \<and> \<not> isMatch (JStr ''application'') (JStr ''g1'') (scope salesGroupScope)
   \<and> roleScopeStep (JStr ''group'') (JStr ''g1'') packageA salesGroupScope [] = ([salesRecord], None)
   \<and> scope crmScope =
        Present \<lparr>originId = Present ''g1'', originSystem = Present ''DynamicsCrm'',
                  scope_displayName = Null\<rparr>
   \<and> Present ''DynamicsCrm''
         \<notin> {Present ''AadApplication'', Present ''AadGroup'', Present ''SharePointOnline''}
   \<and> \<not> isMatch (JStr ''group'') (JStr ''g1'') (scope crmScope)
   \<and> roleScopeStep (JStr ''group'') (JStr ''g1'') packageA crmScope [salesRecord] =
        ([salesRecord], None)"
  using scope_match_exact [of "JStr ''g1''" "JStr ''group''" salesGroupScope packageA "[]"]
    scope_match_exact [of "JStr ''g1''" "JStr ''group''" crmScope packageA "[salesRecord]"]
  by (simp add: isMatch_def salesGroupScope_def crmScope_def roleScopeStep_def matchRecord_def
      packageA_def salesRecord_def)

text \<open>
  Claim C2. When the request passes the validation, its two values have a string
  conversion (so the log line returns), the catalog fetch succeeds and the detail fetch
  of some catalog entry P is rejected, the response is still a 200 with a
  result list. That list is the concatenation, in catalog order, of what each entry
  contributes; P contributes nothing, and every record of every package whose fetch
  succeeded is in it.
\<close>

theorem search_partial_failure:
  assumes "truthy (getProp body ''searchType'')" and "truthy (getProp body ''searchValue'')"
    and "convertsToString (getProp body ''searchType'')"
    and "convertsToString (getProp body ''searchValue'')"
    and "listAccessPackages dir = Inr pkgs"
    and "P \<in> set pkgs" and "getAccessPackage dir (pkg_id P) = Inl err"
  shows "\<exists>results.
      fst (search dir body) =
        \<lparr>status = 200,
         json = SearchBody results (getProp body ''searchType'') (getProp body ''searchValue'')\<rparr>
      \<and> results =
           concat (map (fetchedRecords dir (getProp body ''searchType'') (getProp body ''searchValue'')) pkgs)
      \<and> fetchedRecords dir (getProp body ''searchType'') (getProp body ''searchValue'') P = []
      \<and> (\<forall>Q \<in> set pkgs. \<forall>d. getAccessPackage dir (pkg_id Q) = Inr d \<longrightarrow>
            set (packageRecords (getProp body ''searchType'') (getProp body ''searchValue'') d)
              \<subseteq> set results)"
proof -
  let ?st = "getProp body ''searchType''" and ?sv = "getProp body ''searchValue''"
  let ?results = "concat (map (fetchedRecords dir ?st ?sv) pkgs)"
  have "fst (search dir body) = \<lparr>status = 200, json = SearchBody ?results ?st ?sv\<rparr>"
    using assms(1-5) by (simp add: search_scanned)
  moreover have "fetchedRecords dir ?st ?sv P = []"
    using assms(7) by (simp add: fetchedRecords_cases)
  moreover have "set (packageRecords ?st ?sv d) \<subseteq> set ?results"
    if "Q \<in> set pkgs" and "getAccessPackage dir (pkg_id Q) = Inr d" for Q d
  proof -
    from that(2) have "fetchedRecords dir ?st ?sv Q = packageRecords ?st ?sv d"
      by (simp add: fetchedRecords_cases)
    with that(1) show ?thesis by auto
  qed
  ultimately show ?thesis by blast
qed

theorem search_partial_failure_witness:
  "truthy (getProp groupSearch ''searchType'') \<and> truthy (getProp groupSearch ''searchValue'')
   \<and> convertsToString (getProp groupSearch ''searchType'')
   \<and> convertsToString (getProp groupSearch ''searchValue'')
   \<and> listAccessPackages sampleTenant = Inr sampleCatalog
   \<and> \<lparr>pkg_id = ''C'', pkg_displayName = Present ''Restricted package''\<rparr> \<in> set sampleCatalog
   \<and> getAccessPackage sampleTenant ''C'' = Inl (GraphError ''Forbidden'')
   \<and> getAccessPackage sampleTenant ''A'' = Inr packageA
   \<and> packageRecords (JStr ''group'') (JStr ''g1'') packageA =
        [\<lparr>accessPackageName = Present ''Sales onboarding'', accessPackageId = ''A'',
          resourceName = ''Sales Group'', resourceType = Present ''AadGroup'',
          resourceId = Present ''g1'', roleName = ''Member''\<rparr>]
   \<and> fst (search sampleTenant groupSearch) =
        \<lparr>status = 200,
         json = SearchBody
           [\<lparr>accessPackageName = Present ''Sales onboarding'', accessPackageId = ''A'',
             resourceName = ''Sales Group'', resourceType = Present ''AadGroup'',
             resourceId = Present ''g1'', roleName = ''Member''\<rparr>]
           (JStr ''group'') (JStr ''g1'')\<rparr>"
  using search_partial_failure [of groupSearch sampleTenant sampleCatalog
      "\<lparr>pkg_id = ''C'', pkg_displayName = Present ''Restricted package''\<rparr>" "GraphError ''Forbidden''"]
  by (simp add: groupSearch_def getProp_def sampleTenant_def sampleCatalog_def packageA_def
      fetchedRecords_cases packageRecords_def scanPackage_def roleScopeStep_def isMatch_def
      matchRecord_def salesGroupScope_def packageB_def)

text \<open>
  Claim C8. A fetched package whose \<^verbatim>\<open>resourceRoleScopes\<close> is null, absent or the
  empty list leaves the result list as it was, for every search type and search value:
  the scan pushes nothing and throws nothing, and the loop iteration only records the
  fetch.
\<close>

theorem empty_scopes_contribute_nothing:
  assumes "resourceRoleScopes packageDetails = Null
         \<or> resourceRoleScopes packageDetails = Absent
         \<or> resourceRoleScopes packageDetails = Present []"
    and "getAccessPackage dir (pkg_id pkg) = Inr packageDetails"
  shows "scanPackage searchType searchValue packageDetails results = (results, None)
       \<and> packageStep dir searchType searchValue pkg (results, calls) =
           (results, calls @ [GetAccessPackage (pkg_id pkg)])
       \<and> fetchedRecords dir searchType searchValue pkg = []"
proof -
  have scan: "scanPackage searchType searchValue packageDetails acc = (acc, None)" for acc
    using assms(1) by (auto simp: scanPackage_def)
  then show ?thesis
    using assms(2) by (simp add: packageStep_def tryPackage_def fetchedRecords_def)
qed

theorem empty_scopes_contribute_nothing_witness:
  "resourceRoleScopes packageB = Present []
   \<and> getAccessPackage sampleTenant (pkg_id \<lparr>pkg_id = ''B'', pkg_displayName = Null\<rparr>) = Inr packageB
   \<and> packageStep sampleTenant (JStr ''group'') (JStr ''g1'') \<lparr>pkg_id = ''B'', pkg_displayName = Null\<rparr>
        ([], [ListAccessPackages]) = ([], [ListAccessPackages, GetAccessPackage ''B''])
   \<and> resourceRoleScopes packageNull = Null
   \<and> getAccessPackage nullScopesTenant (pkg_id \<lparr>pkg_id = ''N'', pkg_displayName = Null\<rparr>) = Inr packageNull
   \<and> packageStep nullScopesTenant (JStr ''group'') (JStr ''g1'') \<lparr>pkg_id = ''N'', pkg_displayName = Null\<rparr>
        ([], [ListAccessPackages]) = ([], [ListAccessPackages, GetAccessPackage ''N''])"
  using empty_scopes_contribute_nothing [of packageB sampleTenant
      "\<lparr>pkg_id = ''B'', pkg_displayName = Null\<rparr>" "JStr ''group''" "JStr ''g1''" "[]" "[ListAccessPackages]"]
    empty_scopes_contribute_nothing [of packageNull nullScopesTenant
      "\<lparr>pkg_id = ''N'', pkg_displayName = Null\<rparr>" "JStr ''group''" "JStr ''g1''" "[]" "[ListAccessPackages]"]
  by (simp add: packageB_def packageNull_def sampleTenant_def nullScopesTenant_def)

text \<open>
  Claim C6. A body without \<^verbatim>\<open>searchType\<close> or without \<^verbatim>\<open>searchValue\<close> (the empty
  body among them) is answered with 400 and the message of the handler, and no Graph
  query is issued.
\<close>

theorem search_missing_field:
  assumes "map_of body ''searchType'' = None \<or> map_of body ''searchValue'' = None"
  shows "search dir body =
           (\<lparr>status = 400, json = ErrorBody ''Missing searchType or searchValue''\<rparr>, [])"
  using assms by (auto simp: search_def Let_def getProp_absent)

theorem search_missing_field_witness:
  "map_of ([] :: js_object) ''searchType'' = None
   \<and> search sampleTenant [] =
        (\<lparr>status = 400, json = ErrorBody ''Missing searchType or searchValue''\<rparr>, [])
   \<and> map_of [(''searchType'', JStr ''group'')] ''searchValue'' = None
   \<and> search sampleTenant [(''searchType'', JStr ''group'')] =
        (\<lparr>status = 400, json = ErrorBody ''Missing searchType or searchValue''\<rparr>, [])"
  using search_missing_field [of "[]" sampleTenant]
    search_missing_field [of "[(''searchType'', JStr ''group'')]" sampleTenant]
  by simp

text \<open>
  Claim C5. When the catalog fetch is rejected (the request has passed the validation
  and the log line, so the fetch is issued), the search request is answered with 500,
  a body of the generic message and the message of the upstream error, and nothing
  else: the body has no result list, and the catalog fetch is the only query issued.
\<close>

theorem search_catalog_failure:
  assumes "truthy (getProp body ''searchType'')" and "truthy (getProp body ''searchValue'')"
    and "convertsToString (getProp body ''searchType'')"
    and "convertsToString (getProp body ''searchValue'')"
    and "listAccessPackages dir = Inl err"
  shows "search dir body =
           (\<lparr>status = 500,
             json = ErrorDetailsBody ''Failed to search access packages'' (message err)\<rparr>,
            [ListAccessPackages])"
  using assms by (simp add: search_def Let_def logTemplate_def)

theorem search_catalog_failure_witness:
  "truthy (getProp groupSearch ''searchType'') \<and> truthy (getProp groupSearch ''searchValue'')
   \<and> convertsToString (getProp groupSearch ''searchType'')
   \<and> convertsToString (getProp groupSearch ''searchValue'')
   \<and> listAccessPackages unreachableTenant = Inl (GraphError ''ECONNREFUSED'')
   \<and> search unreachableTenant groupSearch =
        (\<lparr>status = 500,
          json = ErrorDetailsBody ''Failed to search access packages'' ''ECONNREFUSED''\<rparr>,
         [ListAccessPackages])"
  using search_catalog_failure [of groupSearch unreachableTenant "GraphError ''ECONNREFUSED''"]
  by (simp add: groupSearch_def getProp_def unreachableTenant_def)

text \<open>
  Claim C3. For a truthy application name that has a string conversion (every string
  has one) and whose service-principal query succeeds: no
  service principal gives 404; exactly one gives the single record of its id, display
  name and appId; two or more give the \<^verbatim>\<open>multiple\<close> body with one such record for every
  service principal returned, in order.
\<close>

theorem resolveApplication_cardinality:
  assumes "truthy (getProp body ''applicationName'')"
    and "convertsToString (getProp body ''applicationName'')"
    and "listServicePrincipals dir (getProp body ''applicationName'') = Inr servicePrincipals"
  shows "fst (resolveApplication dir body) =
     (case servicePrincipals of
        [] \<Rightarrow> \<lparr>status = 404, json = ErrorBody ''Application not found''\<rparr>
      | [sp] \<Rightarrow>
          \<lparr>status = 200,
           json = ApplicationBody
             \<lparr>objectId = sp_id sp, displayName = sp_displayName sp, appId = sp_appId sp\<rparr>\<rparr>
      | sp # sp' # rest \<Rightarrow>
          \<lparr>status = 200, json = MultipleBody (map toApplication servicePrincipals)\<rparr>)"
  using assms
  by (simp add: resolveApplication_def Let_def logTemplate_def toApplication_def
      split: list.splits)

theorem resolveApplication_cardinality_witness:
  "truthy (getProp [(''applicationName'', JStr ''Contoso'')] ''applicationName'')
   \<and> convertsToString (getProp [(''applicationName'', JStr ''Contoso'')] ''applicationName'')
   \<and> listServicePrincipals sampleTenant (JStr ''Contoso'') = Inr [contosoApp, contosoPortal]
   \<and> fst (resolveApplication sampleTenant [(''applicationName'', JStr ''Contoso'')]) =
        \<lparr>status = 200,
         json = MultipleBody
           [\<lparr>objectId = ''sp1'', displayName = Present ''Contoso App'', appId = Present ''app1''\<rparr>,
            \<lparr>objectId = ''sp2'', displayName = Present ''Contoso Portal'', appId = Present ''app2''\<rparr>]\<rparr>
   \<and> listServicePrincipals sampleTenant (JStr ''Fabrikam'') = Inr [fabrikamApp]
   \<and> fst (resolveApplication sampleTenant [(''applicationName'', JStr ''Fabrikam'')]) =
        \<lparr>status = 200,
         json = ApplicationBody
           \<lparr>objectId = ''sp3'', displayName = Present ''Fabrikam'', appId = Present ''app3''\<rparr>\<rparr>
   \<and> listServicePrincipals sampleTenant (JStr ''Zed'') = Inr []
   \<and> fst (resolveApplication sampleTenant [(''applicationName'', JStr ''Zed'')]) =
        \<lparr>status = 404, json = ErrorBody ''Application not found''\<rparr>"
  using resolveApplication_cardinality
      [of "[(''applicationName'', JStr ''Contoso'')]" sampleTenant "[contosoApp, contosoPortal]"]
    resolveApplication_cardinality
      [of "[(''applicationName'', JStr ''Fabrikam'')]" sampleTenant "[fabrikamApp]"]
    resolveApplication_cardinality
      [of "[(''applicationName'', JStr ''Zed'')]" sampleTenant "[]"]
  by (simp add: getProp_def sampleTenant_def toApplication_def contosoApp_def contosoPortal_def
      fabrikamApp_def)

text \<open>
  Claim C4. For a truthy group name that has a string conversion (every string has
  one) and whose group query succeeds: no group gives 404; one
  or more give the id and display name of the first group returned, whatever follows
  it.
\<close>

theorem resolveGroup_first:
  assumes "truthy (getProp body ''groupName'')"
    and "convertsToString (getProp body ''groupName'')"
    and "listGroups dir (getProp body ''groupName'') = Inr groups"
  shows "fst (resolveGroup dir body) =
     (case groups of
        [] \<Rightarrow> \<lparr>status = 404, json = ErrorBody ''Group not found''\<rparr>
      | g # rest \<Rightarrow> \<lparr>status = 200, json = GroupBody (group_id g) (group_displayName g)\<rparr>)"
  using assms by (simp add: resolveGroup_def Let_def logTemplate_def split: list.splits)

theorem resolveGroup_first_witness:
  "truthy (getProp [(''groupName'', JStr ''Team Alpha'')] ''groupName'')
   \<and> convertsToString (getProp [(''groupName'', JStr ''Team Alpha'')] ''groupName'')
   \<and> listGroups sampleTenant (JStr ''Team Alpha'') =
        Inr [\<lparr>group_id = ''g1'', group_displayName = Present ''Team Alpha''\<rparr>,
             \<lparr>group_id = ''g2'', group_displayName = Present ''Team Alpha''\<rparr>]
   \<and> fst (resolveGroup sampleTenant [(''groupName'', JStr ''Team Alpha'')]) =
        \<lparr>status = 200, json = GroupBody ''g1'' (Present ''Team Alpha'')\<rparr>
   \<and> listGroups sampleTenant (JStr ''Team Beta'') = Inr []
   \<and> fst (resolveGroup sampleTenant [(''groupName'', JStr ''Team Beta'')]) =
        \<lparr>status = 404, json = ErrorBody ''Group not found''\<rparr>"
  using resolveGroup_first [of "[(''groupName'', JStr ''Team Alpha'')]" sampleTenant
      "[\<lparr>group_id = ''g1'', group_displayName = Present ''Team Alpha''\<rparr>,
        \<lparr>group_id = ''g2'', group_displayName = Present ''Team Alpha''\<rparr>]"]
    resolveGroup_first [of "[(''groupName'', JStr ''Team Beta'')]" sampleTenant "[]"]
  by (simp add: getProp_def sampleTenant_def)

text \<open>
  Claim C7 as stated does not hold for every search type outside the three, every
  search value and every tenant: the search type ``device'' with an empty search value
  and the empty search type are answered with 400, a rejected catalog fetch with 500,
  and a search type that is an object with a key \<^verbatim>\<open>toString\<close> with 500 as well, since
  the log line throws on it.
\<close>

theorem search_unknown_type_counterexample:
  "getProp deviceSearchNoValue ''searchType'' \<notin> {JStr ''application'', JStr ''group'', JStr ''sharepoint''}
   \<and> search sampleTenant deviceSearchNoValue =
        (\<lparr>status = 400, json = ErrorBody ''Missing searchType or searchValue''\<rparr>, [])
   \<and> getProp emptyTypeSearch ''searchType'' \<notin> {JStr ''application'', JStr ''group'', JStr ''sharepoint''}
   \<and> search sampleTenant emptyTypeSearch =
        (\<lparr>status = 400, json = ErrorBody ''Missing searchType or searchValue''\<rparr>, [])
   \<and> getProp deviceSearch ''searchType'' \<notin> {JStr ''application'', JStr ''group'', JStr ''sharepoint''}
   \<and> search unreachableTenant deviceSearch =
        (\<lparr>status = 500,
          json = ErrorDetailsBody ''Failed to search access packages'' ''ECONNREFUSED''\<rparr>,
         [ListAccessPackages])
   \<and> getProp objectTypeSearch ''searchType'' \<notin> {JStr ''application'', JStr ''group'', JStr ''sharepoint''}
   \<and> truthy (getProp objectTypeSearch ''searchType'')
   \<and> search sampleTenant objectTypeSearch =
        (\<lparr>status = 500,
          json = ErrorDetailsBody ''Failed to search access packages''
                   ''Cannot convert object to primitive value''\<rparr>,
         [])"
  by (simp add: search_def getProp_def logTemplate_def deviceSearch_def deviceSearchNoValue_def
      emptyTypeSearch_def objectTypeSearch_def unreachableTenant_def)

text \<open>
  Claim C7, amended. For every truthy search type other than ``application'', ``group''
  and ``sharepoint'' and every truthy search value, both with a string conversion (as
  every string, number and boolean has), when the catalog fetch succeeds the response
  is a 200 with an empty result list, whatever the catalog holds and whatever the
  detail fetches return.
\<close>

theorem search_unknown_type_empty:
  assumes "truthy (getProp body ''searchType'')" and "truthy (getProp body ''searchValue'')"
    and "convertsToString (getProp body ''searchType'')"
    and "convertsToString (getProp body ''searchValue'')"
    and "getProp body ''searchType'' \<notin> {JStr ''application'', JStr ''group'', JStr ''sharepoint''}"
    and "listAccessPackages dir = Inr pkgs"
  shows "fst (search dir body) =
           \<lparr>status = 200,
            json = SearchBody [] (getProp body ''searchType'') (getProp body ''searchValue'')\<rparr>"
proof -
  have "mappedOriginSystem (getProp body ''searchType'') = None"
    using assms(5) by (rule mappedOriginSystem_None)
  then have "fetchedRecords dir (getProp body ''searchType'') (getProp body ''searchValue'') pkg = []"
    for pkg
    by (simp add: fetchedRecords_cases unmapped_no_records split: sum.splits)
  then show ?thesis
    using assms(1-4,6) by (simp add: search_scanned)
qed

theorem search_unknown_type_empty_witness:
  "truthy (getProp deviceSearch ''searchType'') \<and> truthy (getProp deviceSearch ''searchValue'')
   \<and> convertsToString (getProp deviceSearch ''searchType'')
   \<and> convertsToString (getProp deviceSearch ''searchValue'')
   \<and> getProp deviceSearch ''searchType'' \<notin> {JStr ''application'', JStr ''group'', JStr ''sharepoint''}
   \<and> listAccessPackages sampleTenant = Inr sampleCatalog
   \<and> fst (search sampleTenant deviceSearch) =
        \<lparr>status = 200, json = SearchBody [] (JStr ''device'') (JStr ''g1'')\<rparr>"
  using search_unknown_type_empty [of deviceSearch sampleTenant sampleCatalog]
  by (simp add: getProp_def deviceSearch_def sampleTenant_def)

text \<open>
  Claim C9 as stated does not hold for the not-found responses: each resolver sends its
  404 after it has issued its query, which returned an empty list.
\<close>

theorem not_found_after_query_counterexample:
  "status (fst (resolveGroup sampleTenant [(''groupName'', JStr ''Team Beta'')])) = 404
   \<and> snd (resolveGroup sampleTenant [(''groupName'', JStr ''Team Beta'')]) =
        [ListGroups (JStr ''Team Beta'')]
   \<and> snd (resolveGroup sampleTenant [(''groupName'', JStr ''Team Beta'')]) \<noteq> []
   \<and> status (fst (resolveApplication sampleTenant [(''applicationName'', JStr ''Zed'')])) = 404
   \<and> snd (resolveApplication sampleTenant [(''applicationName'', JStr ''Zed'')]) =
        [ListServicePrincipals (JStr ''Zed'')]
   \<and> snd (resolveApplication sampleTenant [(''applicationName'', JStr ''Zed'')]) \<noteq> []"
  by (simp add: resolveGroup_def resolveApplication_def getProp_def logTemplate_def
      sampleTenant_def)

text \<open>
  Claim C9, amended. A 400 of any of the three handlers comes with no Graph query
  issued. A 404 of a resolver comes after exactly one query, the resolver's own, which
  returned an empty list; the search handler never sends a 404.
\<close>

theorem errors_and_queries:
  "(status (fst (search dir b1)) = 400 \<longrightarrow> snd (search dir b1) = [])
   \<and> (status (fst (resolveGroup dir b2)) = 400 \<longrightarrow> snd (resolveGroup dir b2) = [])
   \<and> (status (fst (resolveApplication dir b3)) = 400 \<longrightarrow> snd (resolveApplication dir b3) = [])
   \<and> (status (fst (resolveGroup dir b4)) = 404 \<longrightarrow>
         snd (resolveGroup dir b4) = [ListGroups (getProp b4 ''groupName'')]
         \<and> listGroups dir (getProp b4 ''groupName'') = Inr [])
   \<and> (status (fst (resolveApplication dir b5)) = 404 \<longrightarrow>
         snd (resolveApplication dir b5) = [ListServicePrincipals (getProp b5 ''applicationName'')]
         \<and> listServicePrincipals dir (getProp b5 ''applicationName'') = Inr [])
   \<and> status (fst (search dir b6)) \<noteq> 404"
proof (intro conjI impI)
  show "snd (search dir b1) = []" if "status (fst (search dir b1)) = 400"
    using that
    by (auto simp: search_def Let_def split: sum.splits prod.splits if_splits option.splits)
  show "snd (resolveGroup dir b2) = []" if "status (fst (resolveGroup dir b2)) = 400"
    using that
    by (auto simp: resolveGroup_def Let_def split: sum.splits if_splits option.splits)
  show "snd (resolveApplication dir b3) = []" if "status (fst (resolveApplication dir b3)) = 400"
    using that
    by (auto simp: resolveApplication_def Let_def split: sum.splits if_splits option.splits)
  show "snd (resolveGroup dir b4) = [ListGroups (getProp b4 ''groupName'')]"
    and "listGroups dir (getProp b4 ''groupName'') = Inr []"
    if "status (fst (resolveGroup dir b4)) = 404"
    using that
    by (auto simp: resolveGroup_def Let_def split: sum.splits if_splits option.splits)
  show "snd (resolveApplication dir b5) = [ListServicePrincipals (getProp b5 ''applicationName'')]"
    and "listServicePrincipals dir (getProp b5 ''applicationName'') = Inr []"
    if "status (fst (resolveApplication dir b5)) = 404"
    using that
    by (auto simp: resolveApplication_def Let_def split: sum.splits if_splits option.splits)
  show "status (fst (search dir b6)) \<noteq> 404"
    by (auto simp: search_def Let_def split: sum.splits prod.splits option.splits)
qed

theorem errors_and_queries_witness:
  "status (fst (search sampleTenant [])) = 400 \<and> snd (search sampleTenant []) = []
   \<and> status (fst (resolveGroup sampleTenant [])) = 400 \<and> snd (resolveGroup sampleTenant []) = []
   \<and> status (fst (resolveApplication sampleTenant [])) = 400
   \<and> snd (resolveApplication sampleTenant []) = []
   \<and> status (fst (resolveGroup sampleTenant [(''groupName'', JStr ''Team Beta'')])) = 404
   \<and> snd (resolveGroup sampleTenant [(''groupName'', JStr ''Team Beta'')]) =
        [ListGroups (JStr ''Team Beta'')]
   \<and> status (fst (resolveApplication sampleTenant [(''applicationName'', JStr ''Zed'')])) = 404
   \<and> snd (resolveApplication sampleTenant [(''applicationName'', JStr ''Zed'')]) =
        [ListServicePrincipals (JStr ''Zed'')]"
  using errors_and_queries [of sampleTenant "[]" "[]" "[]" "[(''groupName'', JStr ''Team Beta'')]"
      "[(''applicationName'', JStr ''Zed'')]" "[]"]
  by (simp add: search_def resolveGroup_def resolveApplication_def getProp_def logTemplate_def
      sampleTenant_def)

text \<open>
  Claim C10. Every record in the result list of a search response has the request's
  search value, a string, as its \<open>resourceId\<close>, and the tag mapped from the request's
  search type as its \<open>resourceType\<close>; it is the record built from a present scope of a
  role scope of a fetched package of the catalog. A role scope whose scope is null or
  absent pushes nothing and throws nothing.
\<close>

theorem search_record_invariant:
  assumes "json (fst (search dir body)) = SearchBody results searchType searchValue"
    and "r \<in> set results"
  shows "searchType = getProp body ''searchType'' \<and> searchValue = getProp body ''searchValue''
       \<and> (\<exists>v. searchValue = JStr v \<and> resourceId r = Present v)
       \<and> (\<exists>tag. mappedOriginSystem searchType = Some tag \<and> resourceType r = Present tag)
       \<and> (\<exists>pkgs pkg packageDetails rss roleScope s.
             listAccessPackages dir = Inr pkgs \<and> pkg \<in> set pkgs
             \<and> getAccessPackage dir (pkg_id pkg) = Inr packageDetails
             \<and> resourceRoleScopes packageDetails = Present rss \<and> roleScope \<in> set rss
             \<and> scope roleScope = Present s
             \<and> r = matchRecord packageDetails s (role roleScope))
       \<and> (\<forall>roleScope packageDetails acc.
             scope roleScope = Null \<or> scope roleScope = Absent \<longrightarrow>
             roleScopeStep searchType searchValue packageDetails roleScope acc = (acc, None))"
proof -
  let ?st = "getProp body ''searchType''" and ?sv = "getProp body ''searchValue''"
  have valid: "truthy ?st \<and> truthy ?sv"
    using assms(1) by (auto simp: search_def Let_def split: if_splits)
  have logged: "convertsToString ?st \<and> convertsToString ?sv"
    using assms(1) valid
    by (auto simp: search_def Let_def logTemplate_def split: if_splits)
  obtain pkgs where pkgs: "listAccessPackages dir = Inr pkgs"
    using assms(1) valid logged
    by (cases "listAccessPackages dir") (auto simp: search_def Let_def logTemplate_def)
  from valid logged pkgs
  have "json (fst (search dir body)) =
          SearchBody (concat (map (fetchedRecords dir ?st ?sv) pkgs)) ?st ?sv"
    by (simp add: search_scanned)
  with assms(1)
  have eqs: "searchType = ?st" "searchValue = ?sv"
    "results = concat (map (fetchedRecords dir ?st ?sv) pkgs)"
    by auto
  with assms(2) obtain pkg where pkg: "pkg \<in> set pkgs"
    and r: "r \<in> set (fetchedRecords dir searchType searchValue pkg)"
    by auto
  from r obtain d where d: "getAccessPackage dir (pkg_id pkg) = Inr d"
    and rd: "r \<in> set (packageRecords searchType searchValue d)"
    by (cases "getAccessPackage dir (pkg_id pkg)") (auto simp: fetchedRecords_cases)
  from rd obtain rss rs s where rs: "resourceRoleScopes d = Present rss" "rs \<in> set rss"
    "scope rs = Present s" and m: "isMatch searchType searchValue (Present s)"
    and rec: "r = matchRecord d s (role rs)"
    by (blast dest: packageRecords_mem)
  from m obtain tag where tag: "mappedOriginSystem searchType = Some tag"
    "strictEq (originId s) searchValue" "originSystem s = Present tag"
    by (auto simp: isMatch_iff)
  from tag(2) valid eqs(2) obtain v where v: "searchValue = JStr v" "originId s = Present v"
    by (auto simp: strictEq_truthy)
  have null: "roleScopeStep searchType searchValue packageDetails roleScope acc = (acc, None)"
    if "scope roleScope = Null \<or> scope roleScope = Absent" for roleScope packageDetails acc
    using that by (auto simp: roleScopeStep_def dest: isMatch_scope)
  have "\<exists>v. searchValue = JStr v \<and> resourceId r = Present v"
    using v rec by (simp add: matchRecord_def)
  moreover have "\<exists>tag. mappedOriginSystem searchType = Some tag \<and> resourceType r = Present tag"
    using tag rec by (simp add: matchRecord_def)
  moreover have "\<exists>pkgs pkg packageDetails rss roleScope s.
             listAccessPackages dir = Inr pkgs \<and> pkg \<in> set pkgs
             \<and> getAccessPackage dir (pkg_id pkg) = Inr packageDetails
             \<and> resourceRoleScopes packageDetails = Present rss \<and> roleScope \<in> set rss
             \<and> scope roleScope = Present s
             \<and> r = matchRecord packageDetails s (role roleScope)"
    using pkgs pkg d rs rec by blast
  ultimately show ?thesis using eqs(1,2) null by blast
qed

theorem search_record_invariant_witness:
  "json (fst (search sampleTenant groupSearch)) = SearchBody [salesRecord] (JStr ''group'') (JStr ''g1'')
   \<and> salesRecord \<in> set [salesRecord]
   \<and> getProp groupSearch ''searchValue'' = JStr ''g1''
   \<and> resourceId salesRecord = Present ''g1''
   \<and> mappedOriginSystem (JStr ''group'') = Some ''AadGroup''
   \<and> resourceType salesRecord = Present ''AadGroup''
   \<and> salesRecord = matchRecord packageA
        \<lparr>originId = Present ''g1'', originSystem = Present ''AadGroup'',
         scope_displayName = Present ''Sales Group''\<rparr>
        (Present \<lparr>role_displayName = Present ''Member''\<rparr>)
   \<and> scope nullScope = Null
   \<and> roleScopeStep (JStr ''group'') (JStr ''g1'') packageA nullScope [salesRecord] =
        ([salesRecord], None)"
  using search_record_invariant [of sampleTenant groupSearch "[salesRecord]" "JStr ''group''"
      "JStr ''g1''" salesRecord]
  by (simp add: search_def groupSearch_def getProp_def logTemplate_def sampleTenant_def
      sampleCatalog_def packageStep_def tryPackage_def scanPackage_def roleScopeStep_def isMatch_def
      matchRecord_def packageA_def packageB_def salesGroupScope_def salesRecord_def
      mappedOriginSystem_def nullScope_def)

end
